theory Spec2Isabelle
  imports Complex_Main
begin

section \<open>Source sampling of the g4goupil example (G4Geometry.cpp)\<close>

text \<open>
  The development embeds the sampling code of \<^verbatim>\<open>src/G4Geometry.cpp\<close>: the constructor of
  \<^verbatim>\<open>DetectorConstruction\<close> (geometry constants, normalisation of the spectrum), the forward
  sampler \<^verbatim>\<open>RandomiseState\<close>, the backward sampler \<^verbatim>\<open>RandomiseBackward\<close> and the library
  entry \<^verbatim>\<open>g4randomize_source_volume\<close>.

  In the samplers a C++ \<^verbatim>\<open>double\<close> is a \<^typ>\<open>real\<close>: rounding, overflow and the special
  values of IEEE 754 are left out there, and a statement about these definitions is one of
  exact real arithmetic. Two parts of the code are modelled again over doubles, because
  what they compute depends on the arithmetic of the machine. The normalisation of the
  spectrum in the constructor (lines 38--47) is modelled over doubles extended with the
  infinities and NaN (section ``The normalisation with IEEE special values''), for the
  division by a zero sum, and over the rounded operations of binary64 (section ``Rounding
  to binary64''), for the value of the last cumulative weight. The auxiliary energy of the
  backward sampler (lines 228--230) is modelled over the same rounded operations, for its
  bounds.
\<close>

subsection \<open>Units\<close>

text \<open>
  The code scales lengths with the constants of CLHEP's system of units
  (\<^verbatim>\<open>CLHEP/Units/SystemOfUnits.h\<close>, a library outside the repository), whose base length
  is the millimetre: \<^verbatim>\<open>millimeter = 1.\<close>, \<^verbatim>\<open>centimeter = 10.*millimeter\<close>,
  \<^verbatim>\<open>meter = 1000.*millimeter\<close>, \<^verbatim>\<open>kilometer = 1000.*meter\<close>,
  \<^verbatim>\<open>micrometer = 1.e-6*meter\<close>, \<^verbatim>\<open>cm2 = cm*cm\<close>, \<^verbatim>\<open>cm3 = cm*cm*cm\<close>.
\<close>

definition CLHEP_mm :: real where "CLHEP_mm = 1"
definition CLHEP_cm :: real where "CLHEP_cm = 10 * CLHEP_mm"
definition CLHEP_m :: real where "CLHEP_m = 1000 * CLHEP_mm"
definition CLHEP_km :: real where "CLHEP_km = 1000 * CLHEP_m"
definition CLHEP_um :: real where "CLHEP_um = CLHEP_m / 1000000"
definition CLHEP_cm2 :: real where "CLHEP_cm2 = CLHEP_cm * CLHEP_cm"
definition CLHEP_cm3 :: real where "CLHEP_cm3 = CLHEP_cm * CLHEP_cm * CLHEP_cm"

text \<open>\<^verbatim>\<open>M_PI\<close>: the constant of \<^verbatim>\<open>math.h\<close> (the double nearest to \<open>\<pi>\<close>), here \<open>\<pi>\<close> itself.\<close>

definition M_PI :: real where "M_PI = pi"

subsection \<open>Data\<close>

text \<open>
  \<^verbatim>\<open>struct goupil_state\<close> (declared in Goupil's header, outside the repository), with the
  fields the samplers write. The components \<^verbatim>\<open>x\<close>, \<^verbatim>\<open>y\<close>, \<^verbatim>\<open>z\<close> of a
  \<^verbatim>\<open>goupil_float3\<close> are named \<open>vx\<close>, \<open>vy\<close>, \<open>vz\<close>, so that \<open>x\<close>, \<open>y\<close> and \<open>z\<close> stay free
  for variables.
\<close>

record goupil_float3 =
  vx :: real
  vy :: real
  vz :: real

record goupil_state =
  energy :: real
  position :: goupil_float3
  direction :: goupil_float3
  weight :: real

text \<open>
  A \<^verbatim>\<open>G4double[3]\<close> is a function from the index to the element; the code reads and
  writes the indices 0, 1 and 2 only. The spectrum is the vector of pairs
  \<^verbatim>\<open>(energy, intensity)\<close>, whose second components the constructor turns into cumulative
  weights.
\<close>

type_synonym double3 = "nat \<Rightarrow> real"
type_synonym spectrum_table = "(real \<times> real) list"

record DetectorConstruction =
  detectorSize :: double3
  airSize :: double3
  groundSize :: double3
  worldSize :: double3
  detectorOffset :: real
  spectrum :: spectrum_table

subsection \<open>The constructor\<close>

text \<open>
  Lines 38--47: the first loop sums the intensities, \<^verbatim>\<open>norm = 1.0 / norm\<close>, and the second
  loop replaces each intensity by the running sum of \<^verbatim>\<open>pair.second * norm\<close>. The
  variable \<^verbatim>\<open>norm\<close> of the code is \<open>nrm\<close>, \<open>norm\<close> being a constant of HOL. These three
  definitions compute in exact arithmetic; \<open>normalise_spectrum_fl\<close> below is the same
  code with the rounding of the machine. Where the sum is zero, \<open>1 / 0 = 0\<close> of HOL is not
  what the code computes; \<open>normalise_spectrum_dbl\<close> below is.
\<close>

definition sum_intensities :: "spectrum_table \<Rightarrow> real" where
  "sum_intensities sp = fold (\<lambda>pair nrm. nrm + snd pair) sp 0"

fun accumulate_cdf :: "real \<Rightarrow> real \<Rightarrow> spectrum_table \<Rightarrow> spectrum_table" where
  "accumulate_cdf nrm cdf [] = []"
| "accumulate_cdf nrm cdf (pair # rest) =
     (let cdf' = cdf + snd pair * nrm
      in (fst pair, cdf') # accumulate_cdf nrm cdf' rest)"

definition normalise_spectrum :: "spectrum_table \<Rightarrow> spectrum_table" where
  "normalise_spectrum sp =
     (let nrm = sum_intensities sp;
          nrm = 1 / nrm
      in accumulate_cdf nrm 0 sp)"

text \<open>
  The constructor. The initial content of the member \<^verbatim>\<open>spectrum\<close> is set in the class
  declaration (\<^verbatim>\<open>G4Geometry.hh\<close>, not among the sources), so it is the argument \<open>raw\<close>.
  The loop of lines 30--32 copies the first two extents of the air box into the ground
  and world boxes. The arrays of the object are not initialised before the constructor
  writes them; they start as the zero function here, and each of the indices 0, 1 and 2
  is assigned before it is read.
\<close>

definition DetectorConstruction :: "spectrum_table \<Rightarrow> DetectorConstruction" where
  "DetectorConstruction raw =
     (let detectorSize = (\<lambda>_. 0)(0 := 20 * CLHEP_m, 1 := 20 * CLHEP_m, 2 := 10 * CLHEP_m);
          airSize = (\<lambda>_. 0)(0 := 2 * CLHEP_km, 1 := 2 * CLHEP_km, 2 := 1 * CLHEP_km);
          groundSize = (\<lambda>_. 0)(2 := 1 * CLHEP_m);
          (worldSize, groundSize) =
            fold (\<lambda>i (w, g). (w(i := airSize i), g(i := airSize i))) [0, 1] (\<lambda>_. 0, groundSize);
          worldSize = worldSize(2 := groundSize 2 + airSize 2);
          detectorOffset =
            0.5 * (- airSize 2 + detectorSize 2 + groundSize 2) + 5 * CLHEP_cm
      in \<lparr> detectorSize = detectorSize, airSize = airSize, groundSize = groundSize,
           worldSize = worldSize, detectorOffset = detectorOffset,
           spectrum = normalise_spectrum raw \<rparr>)"

subsection \<open>The random engine\<close>

text \<open>
  \<^verbatim>\<open>G4UniformRand()\<close> reads the process-wide engine and advances it. The engine is the
  sequence \<open>rng\<close> of the numbers it will return together with a cursor \<open>k\<close>; a call
  returns the number under the cursor and the cursor moved by one.
\<close>

type_synonym engine = "nat \<Rightarrow> real"

definition G4UniformRand :: "engine \<Rightarrow> nat \<Rightarrow> real \<times> nat" where
  "G4UniformRand rng k = (rng k, Suc k)"

text \<open>
  The draws of the engine lie in the unit interval, 1 excluded. (The engine of CLHEP
  excludes 0 as well; no statement below needs that.)
\<close>

definition unit_draws :: "engine \<Rightarrow> bool" where
  "unit_draws rng \<longleftrightarrow> (\<forall>i. 0 \<le> rng i \<and> rng i < 1)"

subsection \<open>Selecting an energy from the spectrum\<close>

text \<open>
  Lines 155--162 and 211--220, the same block in both samplers: the energy starts as
  \<^verbatim>\<open>spectrum.back().first\<close>, a number \<open>u\<close> is drawn, and the scan of the table stops at
  the first pair with \<^verbatim>\<open>u <= pair.second\<close>. \<^verbatim>\<open>back()\<close> on an empty vector is undefined
  behaviour; the model returns the fault \<open>EmptySpectrum\<close> there.
\<close>

datatype fault = EmptySpectrum

definition spectrum_back :: "spectrum_table \<Rightarrow> fault + (real \<times> real)" where
  "spectrum_back sp = (if sp = [] then Inl EmptySpectrum else Inr (last sp))"

fun scan_spectrum :: "spectrum_table \<Rightarrow> real \<Rightarrow> real \<Rightarrow> real" where
  "scan_spectrum [] u e = e"
| "scan_spectrum (pair # rest) u e =
     (if u \<le> snd pair then fst pair else scan_spectrum rest u e)"

definition sample_spectrum :: "spectrum_table \<Rightarrow> engine \<Rightarrow> nat \<Rightarrow> fault + (real \<times> nat)" where
  "sample_spectrum sp rng k =
     (case spectrum_back sp of
        Inl f \<Rightarrow> Inl f
      | Inr pair \<Rightarrow>
          (let e = fst pair;
               (u, k) = G4UniformRand rng k
           in Inr (scan_spectrum sp u e, k)))"

subsection \<open>The forward sampler\<close>

text \<open>
  Lines 139--141: one drawing of a position in the air box. Lines 143--145: the test
  that ends the loop. The loop \<^verbatim>\<open>for (;;)\<close> has no bound, so it is a partial function:
  \<open>None\<close> is the loop that never leaves.
\<close>

definition draw_position ::
  "DetectorConstruction \<Rightarrow> engine \<Rightarrow> double3 \<Rightarrow> nat \<Rightarrow> double3 \<times> nat" where
  "draw_position this rng pos k =
     (let airOffset = 0.5 * groundSize this 2;
          (u, k) = G4UniformRand rng k;
          pos = pos(0 := airSize this 0 * (0.5 - u));
          (u, k) = G4UniformRand rng k;
          pos = pos(1 := airSize this 1 * (0.5 - u));
          (u, k) = G4UniformRand rng k;
          pos = pos(2 := airSize this 2 * (0.5 - u) + airOffset)
      in (pos, k))"

definition outside_detector :: "DetectorConstruction \<Rightarrow> double3 \<Rightarrow> bool" where
  "outside_detector this pos \<longleftrightarrow>
     \<bar>pos 0\<bar> > 0.5 * detectorSize this 0 \<or>
     \<bar>pos 1\<bar> > 0.5 * detectorSize this 1 \<or>
     \<bar>pos 2 - detectorOffset this\<bar> > 0.5 * detectorSize this 2"

partial_function (option) position_loop ::
  "DetectorConstruction \<Rightarrow> engine \<Rightarrow> double3 \<Rightarrow> nat \<Rightarrow> (double3 \<times> nat) option" where
  "position_loop this rng pos k =
     (case draw_position this rng pos k of
        (pos, k) \<Rightarrow>
          if outside_detector this pos then Some (pos, k)
          else position_loop this rng pos k)"

text \<open>
  \<^verbatim>\<open>RandomiseState\<close> (lines 123--163). The result is \<open>None\<close> when the rejection loop never
  leaves, \<open>Some (Inl EmptySpectrum)\<close> when the spectrum is empty, and otherwise the state
  written through the pointer and the cursor of the engine. \<^verbatim>\<open>std::sqrt\<close> of a negative
  number is NaN in the code; its argument here is not negative for draws in the unit
  interval.
\<close>

definition RandomiseState ::
  "DetectorConstruction \<Rightarrow> goupil_state \<Rightarrow> engine \<Rightarrow> nat \<Rightarrow>
     (fault + goupil_state \<times> nat) option" where
  "RandomiseState this state rng k =
     (let (u, k) = G4UniformRand rng k;
          cosTheta = 2 * u - 1;
          sinTheta = sqrt (1 - cosTheta * cosTheta);
          (u, k) = G4UniformRand rng k;
          phi = 2 * M_PI * u;
          cosPhi = cos phi;
          sinPhi = sin phi;
          state = state\<lparr>direction := (direction state)\<lparr>vx := sinTheta * cosPhi\<rparr>\<rparr>;
          state = state\<lparr>direction := (direction state)\<lparr>vy := sinTheta * sinPhi\<rparr>\<rparr>;
          state = state\<lparr>direction := (direction state)\<lparr>vz := cosTheta\<rparr>\<rparr>
      in case position_loop this rng (\<lambda>_. 0) k of
           None \<Rightarrow> None
         | Some (pos, k) \<Rightarrow>
             Some
              (let state = state\<lparr>position := (position state)\<lparr>vx := pos 0 / CLHEP_cm\<rparr>\<rparr>;
                   state = state\<lparr>position := (position state)\<lparr>vy := pos 1 / CLHEP_cm\<rparr>\<rparr>;
                   state = state\<lparr>position := (position state)\<lparr>vz := pos 2 / CLHEP_cm\<rparr>\<rparr>
               in case sample_spectrum (spectrum this) rng k of
                    Inl f \<Rightarrow> Inl f
                  | Inr (e, k) \<Rightarrow> Inr (state\<lparr>energy := e\<rparr>, k)))"

subsection \<open>The backward sampler\<close>

text \<open>
  Lines 177--179: the search of the face, a loop over \<^verbatim>\<open>axis\<close> that breaks at the first
  \<^verbatim>\<open>r <= c[axis]\<close> and leaves \<^verbatim>\<open>axis = 3\<close> when there is none.
\<close>

function face_search :: "double3 \<Rightarrow> real \<Rightarrow> nat \<Rightarrow> nat" where
  "face_search c r axis =
     (if axis < 3 then (if r \<le> c axis then axis else face_search c r (axis + 1))
      else axis)"
  by pat_completeness auto
termination
  by (relation "measure (\<lambda>(c, r, axis). 3 - axis)") auto

text \<open>
  \<^verbatim>\<open>RandomiseBackward\<close> (lines 165--245). The loops with a fixed number of rounds are folds
  over their indices. The local arrays \<^verbatim>\<open>position\<close> and \<^verbatim>\<open>direction\<close> are not initialised
  in the code and written at the three indices \<open>axis\<close>, \<open>(axis + 1) mod 3\<close> and
  \<open>(axis + 2) mod 3\<close> before they are read; they are \<open>pos\<close> and \<open>dirn\<close> here, \<open>position\<close> and
  \<open>direction\<close> being the fields of the state. \<^verbatim>\<open>std::log\<close> and \<^verbatim>\<open>std::exp\<close> are the exact
  \<open>ln\<close> and \<open>exp\<close> here, which are those of the code for a source energy above 0 only;
  \<open>auxiliary_energy_fl\<close> below is the auxiliary branch with the rounding of the machine. The
  result is the returned source energy,
  the state written through the pointer and the cursor of the engine.
\<close>

definition RandomiseBackward ::
  "DetectorConstruction \<Rightarrow> real \<Rightarrow> goupil_state \<Rightarrow> engine \<Rightarrow> nat \<Rightarrow>
     fault + (real \<times> goupil_state \<times> nat)" where
  "RandomiseBackward this alpha state rng k =
     (let (s, c) =
            fold (\<lambda>axis (s, c).
                    let s = s + detectorSize this ((axis + 1) mod 3) *
                                detectorSize this ((axis + 2) mod 3)
                    in (s, c(axis := s)))
              [0, 1, 2] (0, \<lambda>_. 0);
          (u, k) = G4UniformRand rng k;
          r = s * u;
          axis = face_search c r 0;
          axis = (if axis = 3 then 2 else axis);
          delta = (if axis > 0 then c axis - c (axis - 1) else c 0);
          dir = (if c axis - r > 0.5 * delta then - 1 else 1 :: int);
          detectorPosition = (\<lambda>_. 0)(2 := detectorOffset this);
          pos = (\<lambda>_. 0)(axis := of_int dir * (0.5 * detectorSize this axis + 1 * CLHEP_um)
                                   + detectorPosition axis);
          (pos, k) =
            fold (\<lambda>i (pos, k).
                    let ii = (axis + i + 1) mod 3;
                        (u, k) = G4UniformRand rng k
                    in (pos(ii := detectorSize this ii * (0.5 - u) + detectorPosition ii), k))
              [0, 1] (pos, k);
          pos = fold (\<lambda>i pos. pos(i := pos i / CLHEP_cm)) [0, 1, 2] pos;
          w = 2 * c 2 / CLHEP_cm2;
          (u, k) = G4UniformRand rng k;
          cos_theta = sqrt u;
          sin_theta = sqrt (1 - u);
          (u, k) = G4UniformRand rng k;
          phi = 2 * M_PI * u;
          dirn = (\<lambda>_. 0)((axis + 1) mod 3 := - of_int dir * sin_theta * cos phi);
          dirn = dirn((axis + 2) mod 3 := - of_int dir * sin_theta * sin phi);
          dirn = dirn(axis := - of_int dir * cos_theta);
          w = w * M_PI
      in case sample_spectrum (spectrum this) rng k of
           Inl f \<Rightarrow> Inl f
         | Inr (source_energy, k) \<Rightarrow>
             (let (u, k) = G4UniformRand rng k;
                  (e, w, k) =
                    (if u < alpha then (source_energy, w / alpha, k)
                     else
                       (let emin = 1 / 100;
                            lnr = ln (source_energy / emin);
                            (u, k) = G4UniformRand rng k;
                            e = emin * exp (lnr * u)
                        in (e, w * (e * lnr / (1 - alpha)), k)));
                  state = state\<lparr>energy := e\<rparr>;
                  state = state\<lparr>position := \<lparr>vx = pos 0, vy = pos 1, vz = pos 2\<rparr>\<rparr>;
                  state = state\<lparr>direction := \<lparr>vx = dirn 0, vy = dirn 1, vz = dirn 2\<rparr>\<rparr>;
                  state = state\<lparr>weight := w\<rparr>
              in Inr (source_energy, state, k)))"

subsection \<open>The source volume\<close>

text \<open>
  \<^verbatim>\<open>Singleton()\<close> builds the detector on its first call and returns the same object
  afterwards; \<open>raw\<close> is the spectrum of the class declaration.
\<close>

definition Singleton :: "spectrum_table \<Rightarrow> DetectorConstruction" where
  "Singleton raw = DetectorConstruction raw"

definition g4randomize_source_volume :: "spectrum_table \<Rightarrow> real" where
  "g4randomize_source_volume raw =
     (let airSize = airSize (Singleton raw);
          airVolume = airSize 0 * airSize 1 * airSize 2;
          detSize = detectorSize (Singleton raw);
          detVolume = detSize 0 * detSize 1 * detSize 2
      in (airVolume - detVolume) / CLHEP_cm3)"

subsection \<open>The normalisation with IEEE special values\<close>

text \<open>
  A double that is a number, an infinity or NaN, with the sum, product and quotient of
  IEEE 754 on the special values and exact arithmetic on the numbers. The sign of a zero
  is not kept: a zero divisor counts as \<open>+0\<close>, which is the sign of a zero sum that
  starts from the literal \<^verbatim>\<open>0.0\<close>.
\<close>

datatype dbl = Finite real | PInf | NInf | NaN

definition signed_inf :: "real \<Rightarrow> dbl" where
  "signed_inf a = (if a = 0 then NaN else if 0 < a then PInf else NInf)"

fun dadd :: "dbl \<Rightarrow> dbl \<Rightarrow> dbl" where
  "dadd NaN _ = NaN"
| "dadd _ NaN = NaN"
| "dadd (Finite a) (Finite b) = Finite (a + b)"
| "dadd PInf NInf = NaN"
| "dadd NInf PInf = NaN"
| "dadd PInf _ = PInf"
| "dadd _ PInf = PInf"
| "dadd NInf _ = NInf"
| "dadd _ NInf = NInf"

fun dmul :: "dbl \<Rightarrow> dbl \<Rightarrow> dbl" where
  "dmul NaN _ = NaN"
| "dmul _ NaN = NaN"
| "dmul (Finite a) (Finite b) = Finite (a * b)"
| "dmul (Finite a) PInf = signed_inf a"
| "dmul (Finite a) NInf = signed_inf (- a)"
| "dmul PInf (Finite b) = signed_inf b"
| "dmul NInf (Finite b) = signed_inf (- b)"
| "dmul PInf PInf = PInf"
| "dmul NInf NInf = PInf"
| "dmul PInf NInf = NInf"
| "dmul NInf PInf = NInf"

fun ddiv :: "dbl \<Rightarrow> dbl \<Rightarrow> dbl" where
  "ddiv NaN _ = NaN"
| "ddiv _ NaN = NaN"
| "ddiv (Finite a) (Finite b) = (if b = 0 then signed_inf a else Finite (a / b))"
| "ddiv (Finite a) _ = Finite 0"
| "ddiv PInf (Finite b) = (if b < 0 then NInf else PInf)"
| "ddiv NInf (Finite b) = (if b < 0 then PInf else NInf)"
| "ddiv _ _ = NaN"

text \<open>\<^verbatim>\<open>u <= pair.second\<close>: a comparison with NaN is false.\<close>

fun dle :: "real \<Rightarrow> dbl \<Rightarrow> bool" where
  "dle u (Finite c) = (u \<le> c)"
| "dle u PInf = True"
| "dle u NInf = False"
| "dle u NaN = False"

type_synonym spectrum_dbl = "(real \<times> dbl) list"

text \<open>
  Lines 38--47 again, and the scan of lines 157--162, over these doubles. On a table
  whose intensities do not sum to zero this normalisation is the one over the reals
  (lemma \<open>normalise_spectrum_dbl_finite\<close>).
\<close>

definition sum_intensities_dbl :: "spectrum_dbl \<Rightarrow> dbl" where
  "sum_intensities_dbl sp = fold (\<lambda>pair nrm. dadd nrm (snd pair)) sp (Finite 0)"

fun accumulate_cdf_dbl :: "dbl \<Rightarrow> dbl \<Rightarrow> spectrum_dbl \<Rightarrow> spectrum_dbl" where
  "accumulate_cdf_dbl nrm cdf [] = []"
| "accumulate_cdf_dbl nrm cdf (pair # rest) =
     (let cdf' = dadd cdf (dmul (snd pair) nrm)
      in (fst pair, cdf') # accumulate_cdf_dbl nrm cdf' rest)"

definition normalise_spectrum_dbl :: "spectrum_dbl \<Rightarrow> spectrum_dbl" where
  "normalise_spectrum_dbl sp =
     (let nrm = sum_intensities_dbl sp;
          nrm = ddiv (Finite 1) nrm
      in accumulate_cdf_dbl nrm (Finite 0) sp)"

fun scan_spectrum_dbl :: "spectrum_dbl \<Rightarrow> real \<Rightarrow> real \<Rightarrow> real" where
  "scan_spectrum_dbl [] u e = e"
| "scan_spectrum_dbl (pair # rest) u e =
     (if dle u (snd pair) then fst pair else scan_spectrum_dbl rest u e)"

text \<open>A table of numbers, read as a table of these doubles.\<close>

definition finite_table :: "spectrum_table \<Rightarrow> spectrum_dbl" where
  "finite_table sp = map (\<lambda>pair. (fst pair, Finite (snd pair))) sp"

subsection \<open>Rounding to binary64\<close>

text \<open>
  The arithmetic of the code is that of IEEE 754 binary64 with rounding to nearest, ties
  to even: the result of an operation is the exact result, rounded. \<open>round64\<close> rounds a
  real number. Its quantum is \<open>2 powi e\<close>, with \<open>e\<close> the binary exponent of the number less
  52 and not below \<open>-1074\<close> (the subnormal range); the number goes to the nearest multiple
  of the quantum, to the even one at a tie; a result of magnitude \<open>2 ^ 1024\<close> or more is an
  infinity. \<open>fadd\<close>, \<open>fmul\<close> and \<open>fdiv\<close> round the results of \<open>dadd\<close>, \<open>dmul\<close> and \<open>ddiv\<close>.
  Every operation of the code is rounded on its own: a product and the sum that takes it
  are two operations, not one fused multiply-add. As above, the sign of a zero is not
  kept.
\<close>

definition round_even :: "real \<Rightarrow> int" where
  "round_even m =
     (let f = \<lfloor>m\<rfloor>; d = m - of_int f
      in if d < 1 / 2 then f else if 1 / 2 < d then f + 1 else if even f then f else f + 1)"

definition quantum_exp :: "real \<Rightarrow> int" where
  "quantum_exp x = max (\<lfloor>log 2 \<bar>x\<bar>\<rfloor> - 52) (- 1074)"

definition overflow_threshold :: real where
  "overflow_threshold = 2 ^ 1024"

definition round64 :: "real \<Rightarrow> dbl" where
  "round64 x =
     (if x = 0 then Finite 0
      else
        (let e = quantum_exp x;
             r = of_int (round_even (x / 2 powi e)) * 2 powi e
         in if overflow_threshold \<le> \<bar>r\<bar> then (if 0 < x then PInf else NInf) else Finite r))"

fun round_dbl :: "dbl \<Rightarrow> dbl" where
  "round_dbl (Finite r) = round64 r"
| "round_dbl d = d"

definition fadd :: "dbl \<Rightarrow> dbl \<Rightarrow> dbl" where "fadd a b = round_dbl (dadd a b)"
definition fmul :: "dbl \<Rightarrow> dbl \<Rightarrow> dbl" where "fmul a b = round_dbl (dmul a b)"
definition fdiv :: "dbl \<Rightarrow> dbl \<Rightarrow> dbl" where "fdiv a b = round_dbl (ddiv a b)"


text \<open>Lines 38--47 of the constructor with these operations.\<close>

definition sum_intensities_fl :: "spectrum_dbl \<Rightarrow> dbl" where
  "sum_intensities_fl sp = fold (\<lambda>pair nrm. fadd nrm (snd pair)) sp (Finite 0)"

fun accumulate_cdf_fl :: "dbl \<Rightarrow> dbl \<Rightarrow> spectrum_dbl \<Rightarrow> spectrum_dbl" where
  "accumulate_cdf_fl nrm cdf [] = []"
| "accumulate_cdf_fl nrm cdf (pair # rest) =
     (let cdf' = fadd cdf (fmul (snd pair) nrm)
      in (fst pair, cdf') # accumulate_cdf_fl nrm cdf' rest)"

definition normalise_spectrum_fl :: "spectrum_dbl \<Rightarrow> spectrum_dbl" where
  "normalise_spectrum_fl sp =
     (let nrm = sum_intensities_fl sp;
          nrm = fdiv (Finite 1) nrm
      in accumulate_cdf_fl nrm (Finite 0) sp)"








subsection \<open>The boxes of the scene\<close>



text \<open>
  The value of \<^verbatim>\<open>c[2]\<close> after the loop of lines 171--175 of \<^verbatim>\<open>RandomiseBackward\<close>: the sum
  of the three face areas, in the order of the loop.
\<close>

definition face_area_sum :: "DetectorConstruction \<Rightarrow> real" where
  "face_area_sum this =
     detectorSize this 1 * detectorSize this 2 + detectorSize this 2 * detectorSize this 0 +
     detectorSize this 0 * detectorSize this 1"

subsection \<open>Inputs for the examples\<close>

text \<open>An engine that returns the same number at every call.\<close>

definition constant_engine :: "real \<Rightarrow> engine" where
  "constant_engine u = (\<lambda>_. u)"

section \<open>Properties\<close>

lemmas CLHEP_units =
  CLHEP_mm_def CLHEP_cm_def CLHEP_m_def CLHEP_km_def CLHEP_um_def CLHEP_cm2_def CLHEP_cm3_def

declare face_search.simps [simp del]

subsection \<open>Properties of the normalisation\<close>

lemma fold_add_intensities:
  "fold (\<lambda>pair nrm. nrm + snd pair) sp (a::real) = a + sum_list (map snd sp)"
  by (induction sp arbitrary: a) simp_all

lemma sum_intensities_eq: "sum_intensities sp = sum_list (map snd sp)"
  by (simp add: sum_intensities_def fold_add_intensities)





subsection \<open>The spectrum built by the constructor\<close>

lemma spectrum_DetectorConstruction [simp]:
  "spectrum (DetectorConstruction raw) = normalise_spectrum raw"
  by (simp add: DetectorConstruction_def Let_def)




subsection \<open>The energy selection\<close>

lemma sample_spectrum_nonempty:
  "sp \<noteq> [] \<Longrightarrow>
   sample_spectrum sp rng k = Inr (scan_spectrum sp (rng k) (fst (last sp)), Suc k)"
  by (simp add: sample_spectrum_def spectrum_back_def G4UniformRand_def)

lemma sample_spectrum_empty: "sample_spectrum [] rng k = Inl EmptySpectrum"
  by (simp add: sample_spectrum_def spectrum_back_def)

lemma scan_spectrum_find:
  "scan_spectrum sp u e =
     (case find (\<lambda>pair. u \<le> snd pair) sp of None \<Rightarrow> e | Some pair \<Rightarrow> fst pair)"
  by (induction sp) simp_all

lemma scan_spectrum_overshoot:
  "list_all (\<lambda>pair. snd pair < u) sp \<Longrightarrow> scan_spectrum sp u e = e"
  by (induction sp) simp_all

text \<open>
  C4: on a table that is not empty, the energy selection with the drawn number \<open>u\<close> returns
  the energy of the first entry whose cumulative weight is at least \<open>u\<close>, and the energy of
  the last entry when there is none (so when \<open>u\<close> is above every cumulative weight); it is
  never a fault. With \<open>u = 0\<close> and a first cumulative weight that is not negative it
  returns the first energy; with \<open>u = 0.3\<close> on the cumulative weights (0.25, 0.5, 1) it
  returns the second energy.
\<close>

theorem spectrum_sampling:
  assumes "sp \<noteq> []" and "rng k = u"
  shows "sample_spectrum sp rng k =
           Inr (case find (\<lambda>pair. u \<le> snd pair) sp of
                  None \<Rightarrow> fst (last sp) | Some pair \<Rightarrow> fst pair, Suc k) \<and>
         (list_all (\<lambda>pair. snd pair < u) sp \<longrightarrow>
            sample_spectrum sp rng k = Inr (fst (last sp), Suc k)) \<and>
         (u = 0 \<and> 0 \<le> snd (hd sp) \<longrightarrow>
            sample_spectrum sp rng k = Inr (fst (hd sp), Suc k)) \<and>
         (u = 3 / 10 \<and> map snd sp = [1 / 4, 1 / 2, 1] \<longrightarrow>
            sample_spectrum sp rng k = Inr (fst (sp ! 1), Suc k))"
proof -
  have a: "sample_spectrum sp rng k = Inr (scan_spectrum sp u (fst (last sp)), Suc k)"
    using assms by (simp add: sample_spectrum_nonempty)
  have b: "scan_spectrum sp u (fst (last sp)) = fst (hd sp)" if "u = 0" "0 \<le> snd (hd sp)"
    using that assms(1) by (cases sp) simp_all
  have c: "scan_spectrum sp u (fst (last sp)) = fst (sp ! 1)"
    if "u = 3 / 10" "map snd sp = [1 / 4, 1 / 2, 1]"
  proof -
    from that(2) obtain p q r where "sp = [p, q, r]" "snd p = 1 / 4" "snd q = 1 / 2"
      by auto
    with that(1) show ?thesis by simp
  qed
  have d: "scan_spectrum sp u (fst (last sp)) = fst (last sp)"
    if "list_all (\<lambda>pair. snd pair < u) sp"
    using that by (rule scan_spectrum_overshoot)
  have e: "sample_spectrum sp rng k =
             Inr (case find (\<lambda>pair. u \<le> snd pair) sp of
                    None \<Rightarrow> fst (last sp) | Some pair \<Rightarrow> fst pair, Suc k)"
    unfolding a by (simp only: scan_spectrum_find)
  from b c d show ?thesis
    unfolding e [symmetric] a by simp
qed

theorem spectrum_sampling_witness:
  "sample_spectrum [(1, 1 / 4), (2, 1 / 2), (3, 1)] (constant_engine (3 / 10)) 0 = Inr (2, 1) \<and>
   sample_spectrum [(1, 1 / 4), (2, 1 / 2), (3, 1)] (constant_engine 0) 0 = Inr (1, 1) \<and>
   sample_spectrum [(1, 1 / 4), (2, 1 / 2), (3, 1 / 2)] (constant_engine (3 / 4)) 0 = Inr (3, 1)"
  using spectrum_sampling [of "[(1, 1 / 4), (2, 1 / 2), (3, 1)]" "constant_engine (3 / 10)" 0 "3 / 10"]
    spectrum_sampling [of "[(1, 1 / 4), (2, 1 / 2), (3, 1)]" "constant_engine 0" 0 0]
    spectrum_sampling [of "[(1, 1 / 4), (2, 1 / 2), (3, 1 / 2)]" "constant_engine (3 / 4)" 0 "3 / 4"]
  by (simp add: constant_engine_def)

subsection \<open>The source volume\<close>

text \<open>
  C9: \<^verbatim>\<open>g4randomize_source_volume\<close> returns the volume of the air box minus the volume of
  the detector box, divided by \<^verbatim>\<open>cm3\<close>; with the extents of the constructor (air 2 km, 2 km,
  1 km; detector 20 m, 20 m, 10 m) this is \<open>4e15 - 4e9 = 3.999996e15\<close> cubic centimetres.
\<close>

theorem source_volume:
  "g4randomize_source_volume raw =
     (airSize (DetectorConstruction raw) 0 * airSize (DetectorConstruction raw) 1 *
        airSize (DetectorConstruction raw) 2 -
      detectorSize (DetectorConstruction raw) 0 * detectorSize (DetectorConstruction raw) 1 *
        detectorSize (DetectorConstruction raw) 2) / CLHEP_cm3 \<and>
   airSize (DetectorConstruction raw) 0 = 2 * CLHEP_km \<and>
   airSize (DetectorConstruction raw) 1 = 2 * CLHEP_km \<and>
   airSize (DetectorConstruction raw) 2 = 1 * CLHEP_km \<and>
   detectorSize (DetectorConstruction raw) 0 = 20 * CLHEP_m \<and>
   detectorSize (DetectorConstruction raw) 1 = 20 * CLHEP_m \<and>
   detectorSize (DetectorConstruction raw) 2 = 10 * CLHEP_m \<and>
   g4randomize_source_volume raw = 4 * 10 ^ 15 - 4 * 10 ^ 9 \<and>
   g4randomize_source_volume raw = 3999996000000000"
  by (simp add: g4randomize_source_volume_def Singleton_def DetectorConstruction_def Let_def
      CLHEP_units)


subsection \<open>The forward sampler\<close>

lemma draw_position_apply:
  "fst (draw_position this rng pos k) 0 = airSize this 0 * (0.5 - rng k)"
  "fst (draw_position this rng pos k) 1 = airSize this 1 * (0.5 - rng (k + 1))"
  "fst (draw_position this rng pos k) 2 =
     airSize this 2 * (0.5 - rng (k + 2)) + 0.5 * groundSize this 2"
  "snd (draw_position this rng pos k) = k + 3"
  by (simp_all add: draw_position_def G4UniformRand_def Let_def)

lemma position_loop_accept:
  "outside_detector this (fst (draw_position this rng pos k)) \<Longrightarrow>
   position_loop this rng pos k = Some (draw_position this rng pos k)"
  by (subst position_loop.simps) (simp add: split_def)

lemma position_loop_reject:
  "\<not> outside_detector this (fst (draw_position this rng pos k)) \<Longrightarrow>
   position_loop this rng pos k =
     position_loop this rng (fst (draw_position this rng pos k)) (k + 3)"
  by (subst position_loop.simps) (simp add: split_def draw_position_apply)


text \<open>The loop returns as soon as one of its rounds draws a point outside the detector.\<close>

lemma draw_position_pos:
  "draw_position this rng (fst (draw_position this rng pos j)) k = draw_position this rng pos k"
  by (simp add: draw_position_def G4UniformRand_def Let_def)

lemma position_loop_returns:
  "outside_detector this (fst (draw_position this rng pos (k + 3 * n))) \<Longrightarrow>
   \<exists>y. position_loop this rng pos k = Some y"
proof (induction n arbitrary: k pos)
  case 0
  then show ?case by (simp add: position_loop_accept)
next
  case (Suc n)
  show ?case
  proof (cases "outside_detector this (fst (draw_position this rng pos k))")
    case True
    then show ?thesis by (simp add: position_loop_accept)
  next
    case False
    let ?pos = "fst (draw_position this rng pos k)"
    from Suc.prems have "outside_detector this (fst (draw_position this rng pos (k + 3 + 3 * n)))"
      by (simp add: add.assoc)
    then have "outside_detector this (fst (draw_position this rng ?pos (k + 3 + 3 * n)))"
      by (simp only: draw_position_pos)
    from Suc.IH [OF this] show ?thesis
      by (simp only: position_loop_reject [OF False])
  qed
qed


lemma RandomiseState_None:
  "position_loop this rng (\<lambda>_. 0) (k + 2) = None \<Longrightarrow> RandomiseState this state rng k = None"
  by (simp add: RandomiseState_def G4UniformRand_def Let_def)

lemma RandomiseState_fault:
  "position_loop this rng (\<lambda>_. 0) (k + 2) = Some y \<Longrightarrow> spectrum this = [] \<Longrightarrow>
   RandomiseState this state rng k = Some (Inl EmptySpectrum)"
  by (simp add: RandomiseState_def G4UniformRand_def Let_def split_def sample_spectrum_empty)

lemma RandomiseState_value:
  assumes "position_loop this rng (\<lambda>_. 0) (k + 2) = Some (pos, j)" and "spectrum this \<noteq> []"
  shows "RandomiseState this state rng k =
     Some (Inr
       (\<lparr>energy = scan_spectrum (spectrum this) (rng j) (fst (last (spectrum this))),
         position = \<lparr>vx = pos 0 / CLHEP_cm, vy = pos 1 / CLHEP_cm, vz = pos 2 / CLHEP_cm\<rparr>,
         direction =
           \<lparr>vx = sqrt (1 - (2 * rng k - 1) * (2 * rng k - 1)) * cos (2 * M_PI * rng (k + 1)),
            vy = sqrt (1 - (2 * rng k - 1) * (2 * rng k - 1)) * sin (2 * M_PI * rng (k + 1)),
            vz = 2 * rng k - 1\<rparr>,
         weight = weight state\<rparr>, Suc j))"
  using assms
  by (simp add: RandomiseState_def G4UniformRand_def Let_def sample_spectrum_nonempty)

lemma RandomiseState_cases:
  assumes "RandomiseState this state rng k = Some (Inr (state', k'))"
  obtains pos j where "position_loop this rng (\<lambda>_. 0) (k + 2) = Some (pos, j)"
    and "spectrum this \<noteq> []"
proof (cases "position_loop this rng (\<lambda>_. 0) (k + 2)")
  case None
  with assms show ?thesis by (simp add: RandomiseState_None)
next
  case (Some y)
  with assms have "spectrum this \<noteq> []" by (auto simp: RandomiseState_fault)
  with Some that show ?thesis by (cases y) simp
qed


text \<open>
  \<^verbatim>\<open>RandomiseState\<close> returns a state as soon as the spectrum is not empty and one round
  of its loop draws a point outside the detector.
\<close>

lemma RandomiseState_returns:
  assumes "spectrum this \<noteq> []"
    and "outside_detector this (fst (draw_position this rng (\<lambda>_. 0) (k + 2 + 3 * n)))"
  shows "\<exists>state' k'. RandomiseState this state rng k = Some (Inr (state', k'))"
proof -
  from position_loop_returns [OF assms(2)] obtain pos j where
    "position_loop this rng (\<lambda>_. 0) (k + 2) = Some (pos, j)" by auto
  from RandomiseState_value [OF this assms(1)] show ?thesis by blast
qed

lemma example_position_loop:
  "position_loop (DetectorConstruction raw) (constant_engine (1 / 4)) (\<lambda>_. 0) 2 =
     Some ((\<lambda>_. 0)(0 := 500000, 1 := 500000, 2 := 250500), 5)"
proof -
  have d: "draw_position (DetectorConstruction raw) (constant_engine (1 / 4)) (\<lambda>_. 0) 2 =
      ((\<lambda>_. 0)(0 := 500000, 1 := 500000, 2 := 250500), 5)"
    by (simp add: draw_position_def G4UniformRand_def constant_engine_def
        DetectorConstruction_def Let_def CLHEP_units)
  have "outside_detector (DetectorConstruction raw)
      (fst (draw_position (DetectorConstruction raw) (constant_engine (1 / 4)) (\<lambda>_. 0) 2))"
    unfolding d by (simp add: outside_detector_def DetectorConstruction_def Let_def CLHEP_units)
  from position_loop_accept [OF this] show ?thesis by (simp only: d)
qed

lemma example_position_loop_0:
  "position_loop (DetectorConstruction raw) (constant_engine (1 / 4)) (\<lambda>_. 0) (0 + 2) =
     Some ((\<lambda>_. 0)(0 := 500000, 1 := 500000, 2 := 250500), 5)"
  unfolding add_0 by (rule example_position_loop)

lemma example_forward:
  "raw \<noteq> [] \<Longrightarrow>
   \<exists>state' k'. RandomiseState (DetectorConstruction raw) state (constant_engine (1 / 4)) 0 =
      Some (Inr (state', k'))"
proof -
  assume "raw \<noteq> []"
  then have "spectrum (DetectorConstruction raw) \<noteq> []"
    by (cases raw) (simp_all add: normalise_spectrum_def Let_def)
  from RandomiseState_value [OF example_position_loop_0 this]
  show ?thesis by blast
qed

lemma unit_draws_constant: "0 \<le> u \<Longrightarrow> u < 1 \<Longrightarrow> unit_draws (constant_engine u)"
  by (simp add: unit_draws_def constant_engine_def)

text \<open>
  C1 (as amended): \<^verbatim>\<open>RandomiseState\<close> does not write the field \<^verbatim>\<open>weight\<close>; after the call
  it holds the value it had before. The weight is 1 after the call exactly when the caller
  put 1 there.
\<close>

theorem forward_weight_kept:
  assumes "RandomiseState this state rng k = Some (Inr (state', k'))"
  shows "weight state' = weight state"
proof -
  from assms obtain pos j where "position_loop this rng (\<lambda>_. 0) (k + 2) = Some (pos, j)"
    and "spectrum this \<noteq> []" by (rule RandomiseState_cases)
  from RandomiseState_value [OF this, of state] assms show ?thesis by auto
qed

theorem forward_weight_kept_witness:
  "\<exists>state' k'.
     RandomiseState (DetectorConstruction [(1, 1)])
       \<lparr>energy = 0, position = \<lparr>vx = 0, vy = 0, vz = 0\<rparr>,
        direction = \<lparr>vx = 0, vy = 0, vz = 0\<rparr>, weight = 1\<rparr>
       (constant_engine (1 / 4)) 0 = Some (Inr (state', k')) \<and>
     weight state' = 1"
proof -
  let ?state = "\<lparr>energy = 0, position = \<lparr>vx = 0, vy = 0, vz = 0\<rparr>,
        direction = \<lparr>vx = 0, vy = 0, vz = 0\<rparr>, weight = 1\<rparr>"
  from example_forward [of "[(1, 1)]" ?state] obtain state' k' where
    r: "RandomiseState (DetectorConstruction [(1, 1)]) ?state (constant_engine (1 / 4)) 0 =
      Some (Inr (state', k'))" by auto
  from forward_weight_kept [OF r] r show ?thesis by simp
qed

text \<open>
  C1 (as stated) fails: called on a state whose weight is 2, the sampler returns a state
  whose weight is 2, not 1.
\<close>

theorem forward_weight_counterexample:
  "map_option (map_sum id (weight \<circ> fst))
     (RandomiseState (DetectorConstruction [(1, 1)])
       \<lparr>energy = 0, position = \<lparr>vx = 0, vy = 0, vz = 0\<rparr>,
        direction = \<lparr>vx = 0, vy = 0, vz = 0\<rparr>, weight = 2\<rparr>
       (constant_engine (1 / 4)) 0) = Some (Inr 2)"
proof -
  have "spectrum (DetectorConstruction [(1, 1)]) \<noteq> []"
    by (simp add: normalise_spectrum_def Let_def)
  from RandomiseState_value [OF example_position_loop_0 this]
  show ?thesis by simp
qed




lemma unit_vector:
  assumes "- 1 \<le> c" "c \<le> (1::real)"
  shows "(sqrt (1 - c * c) * cos phi)\<^sup>2 + (sqrt (1 - c * c) * sin phi)\<^sup>2 + c\<^sup>2 = 1"
proof -
  from assms have "0 \<le> (1 - c) * (1 + c)" by (intro mult_nonneg_nonneg) simp_all
  then have "c * c \<le> 1" by (simp add: algebra_simps)
  then have sq: "(sqrt (1 - c * c))\<^sup>2 = 1 - c * c" by simp
  have "(s * cos phi)\<^sup>2 + (s * sin phi)\<^sup>2 = s\<^sup>2" for s :: real
  proof -
    have "(s * cos phi)\<^sup>2 + (s * sin phi)\<^sup>2 = s\<^sup>2 * ((cos phi)\<^sup>2 + (sin phi)\<^sup>2)"
      by (simp only: power_mult_distrib distrib_left)
    then show ?thesis by (simp only: sin_cos_squared_add2 mult_1_right)
  qed
  then have "(sqrt (1 - c * c) * cos phi)\<^sup>2 + (sqrt (1 - c * c) * sin phi)\<^sup>2 + c\<^sup>2
      = 1 - c * c + c\<^sup>2"
    by (simp only: sq)
  then show ?thesis by (simp add: power2_eq_square)
qed

text \<open>
  C6: with the first draw in the unit interval, so \<open>cosTheta\<close> in \<open>[-1, 1]\<close>, the direction
  written by \<^verbatim>\<open>RandomiseState\<close> is \<open>(sinTheta * cos phi, sinTheta * sin phi, cosTheta)\<close> with
  \<open>sinTheta = sqrt (1 - cosTheta\<^sup>2)\<close>, and the squares of its components sum to 1.
\<close>

theorem forward_direction:
  assumes "RandomiseState this state rng k = Some (Inr (state', k'))"
    and "0 \<le> rng k \<and> rng k \<le> 1"
  shows "(let cosTheta = 2 * rng k - 1;
              sinTheta = sqrt (1 - cosTheta * cosTheta);
              phi = 2 * pi * rng (k + 1)
          in direction state' =
               \<lparr>vx = sinTheta * cos phi, vy = sinTheta * sin phi, vz = cosTheta\<rparr>) \<and>
         (vx (direction state'))\<^sup>2 + (vy (direction state'))\<^sup>2 + (vz (direction state'))\<^sup>2 = 1"
proof -
  from assms(1) obtain pos j where
    loop: "position_loop this rng (\<lambda>_. 0) (k + 2) = Some (pos, j)"
    and ne: "spectrum this \<noteq> []" by (rule RandomiseState_cases)
  from RandomiseState_value [OF loop ne, of state] assms(1)
  have d: "direction state' =
      \<lparr>vx = sqrt (1 - (2 * rng k - 1) * (2 * rng k - 1)) * cos (2 * M_PI * rng (k + 1)),
       vy = sqrt (1 - (2 * rng k - 1) * (2 * rng k - 1)) * sin (2 * M_PI * rng (k + 1)),
       vz = 2 * rng k - 1\<rparr>" by auto
  from assms(2) have "- 1 \<le> 2 * rng k - 1" "2 * rng k - 1 \<le> 1" by simp_all
  from unit_vector [OF this, of "2 * M_PI * rng (k + 1)"] d show ?thesis
    by (simp add: Let_def M_PI_def)
qed

theorem forward_direction_witness:
  "\<exists>state' k'.
     RandomiseState (DetectorConstruction [(1, 1)])
       \<lparr>energy = 0, position = \<lparr>vx = 0, vy = 0, vz = 0\<rparr>,
        direction = \<lparr>vx = 0, vy = 0, vz = 0\<rparr>, weight = 1\<rparr>
       (constant_engine (1 / 4)) 0 = Some (Inr (state', k')) \<and>
     direction state' = \<lparr>vx = 0, vy = sqrt 3 / 2, vz = - 1 / 2\<rparr> \<and>
     (vx (direction state'))\<^sup>2 + (vy (direction state'))\<^sup>2 + (vz (direction state'))\<^sup>2 = 1"
proof -
  let ?state = "\<lparr>energy = 0, position = \<lparr>vx = 0, vy = 0, vz = 0\<rparr>,
        direction = \<lparr>vx = 0, vy = 0, vz = 0\<rparr>, weight = 1\<rparr>"
  from example_forward [of "[(1, 1)]" ?state] obtain state' k' where
    r: "RandomiseState (DetectorConstruction [(1, 1)]) ?state (constant_engine (1 / 4)) 0 =
      Some (Inr (state', k'))" by auto
  have s: "sqrt (3 / 4) = sqrt 3 / 2" by (simp add: real_sqrt_divide)
  have "(0::real) \<le> constant_engine (1 / 4) 0 \<and> constant_engine (1 / 4) 0 \<le> 1"
    by (simp add: constant_engine_def)
  from forward_direction [OF r this] r s show ?thesis
    by (simp add: constant_engine_def Let_def power_divide)
qed


subsection \<open>The backward sampler\<close>

lemma cursor_steps:
  "Suc (Suc (Suc (Suc (Suc k)))) = k + 5" "Suc (k + 5) = k + 6" "Suc (k + 6) = k + 7"
  "Suc (k + 7) = k + 8"
  by simp_all

lemma face_areas:
  "fold (\<lambda>axis (s, c).
           let s = s + detectorSize this ((axis + 1) mod 3) * detectorSize this ((axis + 2) mod 3)
           in (s, c(axis := s)))
     [0, 1, 2] (0, \<lambda>_. 0) =
   (face_area_sum this,
    (\<lambda>_. 0)(0 := detectorSize this 1 * detectorSize this 2,
             1 := detectorSize this 1 * detectorSize this 2 +
                  detectorSize this 2 * detectorSize this 0,
             2 := face_area_sum this))"
  by (simp add: Let_def face_area_sum_def numeral_2_eq_2)


lemma RandomiseBackward_value:
  assumes "spectrum this \<noteq> []"
  shows "\<exists>state' k'.
    RandomiseBackward this alpha state rng k =
      Inr (scan_spectrum (spectrum this) (rng (k + 5)) (fst (last (spectrum this))), state', k') \<and>
    energy state' =
      (if rng (k + 6) < alpha
       then scan_spectrum (spectrum this) (rng (k + 5)) (fst (last (spectrum this)))
       else 1 / 100 * exp (ln (scan_spectrum (spectrum this) (rng (k + 5))
                                  (fst (last (spectrum this))) / (1 / 100)) * rng (k + 7))) \<and>
    weight state' =
      (if rng (k + 6) < alpha
       then 2 * face_area_sum this / CLHEP_cm2 * M_PI / alpha
       else 2 * face_area_sum this / CLHEP_cm2 * M_PI *
            (1 / 100 * exp (ln (scan_spectrum (spectrum this) (rng (k + 5))
                                  (fst (last (spectrum this))) / (1 / 100)) * rng (k + 7)) *
             ln (scan_spectrum (spectrum this) (rng (k + 5)) (fst (last (spectrum this))) /
                 (1 / 100)) / (1 - alpha))) \<and>
    k' = (if rng (k + 6) < alpha then k + 7 else k + 8)"
  unfolding RandomiseBackward_def face_areas
  using assms
  by (simp add: Let_def G4UniformRand_def sample_spectrum_nonempty
      split_def cursor_steps) (simp add: divide_simps)


lemma example_spectrum: "normalise_spectrum [(1, 1)] = [(1, 1)]"
  by (simp add: normalise_spectrum_def sum_intensities_def Let_def)

lemma example_spectrum_nonempty: "spectrum (DetectorConstruction [(1, 1)]) \<noteq> []"
  by (simp add: example_spectrum)

lemma example_face_area_sum: "face_area_sum (DetectorConstruction raw) = 800000000"
  by (simp add: face_area_sum_def DetectorConstruction_def Let_def CLHEP_units)

text \<open>
  C2: with \<open>alpha = 1\<close> and draws in the unit interval the test \<^verbatim>\<open>G4UniformRand() < alpha\<close>
  always holds, so the energy of the state is the returned source energy and the weight is
  \<open>2 * totalArea * \<pi>\<close>, with \<open>totalArea\<close> the sum \<open>dx*dy + dy*dz + dz*dx\<close> of the face areas of
  the detector in square centimetres.
\<close>

theorem backward_alpha_one:
  assumes "spectrum this \<noteq> []" and "unit_draws rng"
  shows "\<exists>src state' k'.
           RandomiseBackward this 1 state rng k = Inr (src, state', k') \<and>
           energy state' = src \<and>
           weight state' =
             2 * ((detectorSize this 0 * detectorSize this 1 +
                   detectorSize this 1 * detectorSize this 2 +
                   detectorSize this 2 * detectorSize this 0) / CLHEP_cm2) * pi"
proof -
  from assms(2) have "rng (k + 6) < 1" by (simp add: unit_draws_def)
  moreover have "face_area_sum this =
      detectorSize this 0 * detectorSize this 1 + detectorSize this 1 * detectorSize this 2 +
      detectorSize this 2 * detectorSize this 0"
    by (simp add: face_area_sum_def mult.commute)
  ultimately show ?thesis
    using RandomiseBackward_value [OF assms(1), of 1 state rng k]
    by (auto simp: M_PI_def)
qed

theorem backward_alpha_one_witness:
  "unit_draws (constant_engine (1 / 4)) \<and>
   (\<exists>src state' k'.
      RandomiseBackward (DetectorConstruction [(1, 1)]) 1
        \<lparr>energy = 0, position = \<lparr>vx = 0, vy = 0, vz = 0\<rparr>,
         direction = \<lparr>vx = 0, vy = 0, vz = 0\<rparr>, weight = 1\<rparr>
        (constant_engine (1 / 4)) 0 = Inr (src, state', k') \<and>
      energy state' = src \<and> weight state' = 16000000 * pi)"
proof -
  have u: "unit_draws (constant_engine (1 / 4))" by (simp add: unit_draws_constant)
  note ne = example_spectrum_nonempty
  have "2 * ((detectorSize (DetectorConstruction [(1, 1)]) 0 *
              detectorSize (DetectorConstruction [(1, 1)]) 1 +
              detectorSize (DetectorConstruction [(1, 1)]) 1 *
              detectorSize (DetectorConstruction [(1, 1)]) 2 +
              detectorSize (DetectorConstruction [(1, 1)]) 2 *
              detectorSize (DetectorConstruction [(1, 1)]) 0) / CLHEP_cm2) * pi = 16000000 * pi"
    by (simp add: DetectorConstruction_def Let_def CLHEP_units)
  with backward_alpha_one [OF ne u] u show ?thesis by simp
qed

text \<open>
  C8 (as amended): \<^verbatim>\<open>RandomiseBackward\<close> does not check \<open>alpha\<close>. For every \<open>alpha\<close>, in
  \<open>[0, 1]\<close> or not, a call on a spectrum that is not empty returns a state. For
  \<open>alpha \<ge> 1\<close> it takes the branch of direct reuse, with the weight
  \<open>2 * totalArea * \<pi> / alpha\<close>; for \<open>alpha \<le> 0\<close>, so for \<open>alpha = 0\<close>, that branch and its
  division by \<open>alpha\<close> are never taken and the energy is the log-uniform one.
\<close>

theorem backward_alpha_unchecked:
  assumes "spectrum this \<noteq> []" and "unit_draws rng"
  shows "\<exists>src state' k'.
           RandomiseBackward this alpha state rng k = Inr (src, state', k') \<and>
           (1 \<le> alpha \<longrightarrow>
              energy state' = src \<and>
              weight state' = 2 * face_area_sum this / CLHEP_cm2 * pi / alpha) \<and>
           (alpha \<le> 0 \<longrightarrow>
              energy state' = 1 / 100 * exp (ln (src / (1 / 100)) * rng (k + 7)) \<and>
              weight state' =
                2 * face_area_sum this / CLHEP_cm2 * pi *
                (energy state' * ln (src / (1 / 100)) / (1 - alpha)))"
proof -
  let ?src = "scan_spectrum (spectrum this) (rng (k + 5)) (fst (last (spectrum this)))"
  let ?aux = "1 / 100 * exp (ln (?src / (1 / 100)) * rng (k + 7))"
  from RandomiseBackward_value [OF assms(1), of alpha state rng k] obtain state' k' where
    r: "RandomiseBackward this alpha state rng k = Inr (?src, state', k')"
    and e: "energy state' = (if rng (k + 6) < alpha then ?src else ?aux)"
    and w: "weight state' =
      (if rng (k + 6) < alpha then 2 * face_area_sum this / CLHEP_cm2 * M_PI / alpha
       else 2 * face_area_sum this / CLHEP_cm2 * M_PI *
            (?aux * ln (?src / (1 / 100)) / (1 - alpha)))"
    by blast
  from assms(2) have u: "0 \<le> rng (k + 6)" "rng (k + 6) < 1" by (simp_all add: unit_draws_def)
  have hi: "energy state' = ?src \<and>
      weight state' = 2 * face_area_sum this / CLHEP_cm2 * pi / alpha" if "1 \<le> alpha"
  proof -
    from that u have "rng (k + 6) < alpha" by simp
    with e w show ?thesis by (simp only: if_True M_PI_def)
  qed
  have lo: "energy state' = ?aux \<and>
      weight state' = 2 * face_area_sum this / CLHEP_cm2 * pi *
        (energy state' * ln (?src / (1 / 100)) / (1 - alpha))" if "alpha \<le> 0"
  proof -
    from that u have "\<not> rng (k + 6) < alpha" by simp
    with e w have e': "energy state' = ?aux" and
      w': "weight state' = 2 * face_area_sum this / CLHEP_cm2 * pi *
        (?aux * ln (?src / (1 / 100)) / (1 - alpha))"
      by (simp_all only: if_False M_PI_def)
    show ?thesis by (simp only: e' w')
  qed
  from r hi lo show ?thesis by blast
qed

theorem backward_alpha_unchecked_witness:
  "unit_draws (constant_engine (1 / 4)) \<and>
   (\<exists>src state' k'.
      RandomiseBackward (DetectorConstruction [(1, 1)]) 0
        \<lparr>energy = 0, position = \<lparr>vx = 0, vy = 0, vz = 0\<rparr>,
         direction = \<lparr>vx = 0, vy = 0, vz = 0\<rparr>, weight = 1\<rparr>
        (constant_engine (1 / 4)) 0 = Inr (src, state', k') \<and>
      energy state' = 1 / 100 * exp (ln (src / (1 / 100)) * (1 / 4)) \<and>
      weight state' = 16000000 * pi * (energy state' * ln (src / (1 / 100)))) \<and>
   (\<exists>src state' k'.
      RandomiseBackward (DetectorConstruction [(1, 1)]) 2
        \<lparr>energy = 0, position = \<lparr>vx = 0, vy = 0, vz = 0\<rparr>,
         direction = \<lparr>vx = 0, vy = 0, vz = 0\<rparr>, weight = 1\<rparr>
        (constant_engine (1 / 4)) 0 = Inr (src, state', k') \<and>
      energy state' = src \<and> weight state' = 8000000 * pi)"
proof -
  let ?state = "\<lparr>energy = 0, position = \<lparr>vx = 0, vy = 0, vz = 0\<rparr>,
         direction = \<lparr>vx = 0, vy = 0, vz = 0\<rparr>, weight = 1\<rparr>"
  have u: "unit_draws (constant_engine (1 / 4))" by (simp add: unit_draws_constant)
  note ne = example_spectrum_nonempty
  from backward_alpha_unchecked [OF ne u, of 0 ?state 0]
    backward_alpha_unchecked [OF ne u, of 2 ?state 0] u
  show ?thesis
    by (simp add: example_face_area_sum CLHEP_units constant_engine_def)
qed

text \<open>
  C8 (as stated) fails: with \<open>alpha = 2\<close> the call does not fail; it returns a state whose
  weight is the geometric factor \<open>16000000 * \<pi>\<close> divided by 2.
\<close>

theorem backward_alpha_counterexample:
  "map_sum id (weight \<circ> fst \<circ> snd)
     (RandomiseBackward (DetectorConstruction [(1, 1)]) 2
        \<lparr>energy = 0, position = \<lparr>vx = 0, vy = 0, vz = 0\<rparr>,
         direction = \<lparr>vx = 0, vy = 0, vz = 0\<rparr>, weight = 1\<rparr>
        (constant_engine (1 / 4)) 0) = Inr (8000000 * pi)"
proof -
  note ne = example_spectrum_nonempty
  from RandomiseBackward_value [OF ne, of 2
      "\<lparr>energy = 0, position = \<lparr>vx = 0, vy = 0, vz = 0\<rparr>,
        direction = \<lparr>vx = 0, vy = 0, vz = 0\<rparr>, weight = 1\<rparr>" "constant_engine (1 / 4)" 0]
  show ?thesis
    by (auto simp: example_face_area_sum CLHEP_units constant_engine_def M_PI_def)
qed



subsection \<open>The normalisation with IEEE special values\<close>

lemma dadd_NaN_right: "dadd x NaN = NaN"
  by (cases x) simp_all

lemma fold_dadd_finite:
  "fold (\<lambda>pair nrm. dadd nrm (snd pair)) (finite_table sp) (Finite a) =
     Finite (a + sum_list (map snd sp))"
  by (induction sp arbitrary: a) (simp_all add: finite_table_def add.assoc)

lemma sum_intensities_dbl_finite:
  "sum_intensities_dbl (finite_table sp) = Finite (sum_intensities sp)"
  by (simp add: sum_intensities_dbl_def fold_dadd_finite sum_intensities_eq)

lemma accumulate_cdf_dbl_finite:
  "accumulate_cdf_dbl (Finite nrm) (Finite cdf) (finite_table sp) =
     finite_table (accumulate_cdf nrm cdf sp)"
  by (induction sp arbitrary: cdf) (simp_all add: finite_table_def Let_def)

text \<open>
  Where the sum of the intensities is not zero, the normalisation over the extended
  doubles is the one over the reals.
\<close>

lemma normalise_spectrum_dbl_finite:
  "sum_list (map snd sp) \<noteq> 0 \<Longrightarrow>
   normalise_spectrum_dbl (finite_table sp) = finite_table (normalise_spectrum sp)"
  by (simp add: normalise_spectrum_dbl_def normalise_spectrum_def Let_def
      sum_intensities_dbl_finite sum_intensities_eq accumulate_cdf_dbl_finite)

lemma accumulate_cdf_dbl_NaN:
  "accumulate_cdf_dbl nrm NaN sp = map (\<lambda>pair. (fst pair, NaN)) sp"
  by (induction sp) (simp_all add: Let_def)

lemma accumulate_cdf_dbl_zero:
  "list_all (\<lambda>pair. snd pair = 0) sp \<Longrightarrow>
   accumulate_cdf_dbl PInf cdf (finite_table sp) = map (\<lambda>pair. (fst pair, NaN)) sp"
  by (cases sp)
    (simp_all add: finite_table_def Let_def signed_inf_def dadd_NaN_right accumulate_cdf_dbl_NaN)

lemma scan_spectrum_dbl_NaN:
  "scan_spectrum_dbl (map (\<lambda>pair. (fst pair, NaN)) sp) u e = e"
  by (induction sp) simp_all

text \<open>
  C7 (as amended): a table whose intensities are all zero is not detected. The
  constructor divides by the zero sum without a check and completes; every cumulative
  weight it leaves is NaN, and every later scan of that table compares false and falls
  through to the energy it started with, the last entry's.
\<close>

theorem zero_spectrum_unchecked:
  assumes "list_all (\<lambda>pair. snd pair = 0) raw"
  shows "normalise_spectrum_dbl (finite_table raw) = map (\<lambda>pair. (fst pair, NaN)) raw \<and>
         scan_spectrum_dbl (normalise_spectrum_dbl (finite_table raw)) u e = e"
proof -
  from assms have "sum_list (map snd raw) = 0"
    by (induction raw) simp_all
  then have "ddiv (Finite 1) (sum_intensities_dbl (finite_table raw)) = PInf"
    by (simp add: sum_intensities_dbl_finite sum_intensities_eq signed_inf_def)
  then have "normalise_spectrum_dbl (finite_table raw) = map (\<lambda>pair. (fst pair, NaN)) raw"
    using assms by (simp add: normalise_spectrum_dbl_def Let_def accumulate_cdf_dbl_zero)
  then show ?thesis by (simp add: scan_spectrum_dbl_NaN)
qed

theorem zero_spectrum_unchecked_witness:
  "list_all (\<lambda>pair. snd pair = 0) [(1::real, 0::real), (2, 0)] \<and>
   normalise_spectrum_dbl (finite_table [(1, 0), (2, 0)]) = [(1, NaN), (2, NaN)] \<and>
   scan_spectrum_dbl (normalise_spectrum_dbl (finite_table [(1, 0), (2, 0)])) (1 / 4) 2 = 2"
  using zero_spectrum_unchecked [of "[(1, 0), (2, 0)]" "1 / 4" 2] by simp

text \<open>
  C7 (as stated) fails: on the table with the intensities (0, 0) the normalisation is not
  aborted; it returns the table with the cumulative weights (NaN, NaN).
\<close>

theorem zero_spectrum_counterexample:
  "normalise_spectrum_dbl [(1, Finite 0), (2, Finite 0)] = [(1, NaN), (2, NaN)]"
  by (simp add: normalise_spectrum_dbl_def sum_intensities_dbl_def Let_def signed_inf_def)

subsection \<open>Rounding to binary64\<close>

lemma round_even_eq: "\<bar>m - of_int n\<bar> < 1 / 2 \<Longrightarrow> round_even m = n"
proof -
  assume a: "\<bar>m - of_int n\<bar> < 1 / 2"
  show ?thesis
  proof (cases "of_int n \<le> m")
    case True
    with a have "\<lfloor>m\<rfloor> = n" by (intro floor_unique) auto
    with a True show ?thesis by (simp add: round_even_def Let_def)
  next
    case False
    with a have f: "\<lfloor>m\<rfloor> = n - 1" by (intro floor_unique) auto
    with a False have "1 / 2 < m - of_int \<lfloor>m\<rfloor>" by simp
    with f show ?thesis by (simp add: round_even_def Let_def)
  qed
qed

lemma quantum_exp_eq:
  assumes "2 powi (e + 52) \<le> \<bar>x\<bar>" and "\<bar>x\<bar> < 2 powi (e + 53)" and "- 1074 \<le> e"
  shows "quantum_exp x = e"
proof -
  have "(0::real) < 2 powi (e + 52)" by simp
  with assms(1) have pos: "0 < \<bar>x\<bar>" by linarith
  have p: "2 powr real_of_int k = 2 powi k" for k
    by (rule powr_real_of_int') simp_all
  from pos have "\<lfloor>log 2 \<bar>x\<bar>\<rfloor> = e + 52 \<longleftrightarrow>
      2 powi (e + 52) \<le> \<bar>x\<bar> \<and> \<bar>x\<bar> < 2 powi (e + 52 + 1)"
    unfolding p [symmetric] by (intro floor_log_eq_powr_iff) simp_all
  with assms(1,2) have "\<lfloor>log 2 \<bar>x\<bar>\<rfloor> = e + 52"
    by (simp add: add.assoc)
  with assms(3) show ?thesis by (simp add: quantum_exp_def)
qed

lemma small_no_overflow:
  assumes "\<bar>r\<bar> \<le> 2 ^ 64"
  shows "\<bar>r\<bar> < overflow_threshold"
proof -
  have "(2::real) ^ 64 < 2 ^ 1024" by (rule power_strict_increasing) simp_all
  with assms show ?thesis
    unfolding overflow_threshold_def by (rule le_less_trans)
qed






lemma floor_log2_bounds:
  assumes "0 < a"
  shows "2 powi \<lfloor>log 2 a\<rfloor> \<le> a" and "a < 2 powi (\<lfloor>log 2 a\<rfloor> + 1)"
proof -
  have p: "2 powr real_of_int k = 2 powi k" for k
    by (rule powr_real_of_int') simp_all
  from assms have "\<lfloor>log 2 a\<rfloor> = \<lfloor>log 2 a\<rfloor> \<longleftrightarrow>
      2 powi \<lfloor>log 2 a\<rfloor> \<le> a \<and> a < 2 powi (\<lfloor>log 2 a\<rfloor> + 1)"
    unfolding p [symmetric] by (intro floor_log_eq_powr_iff) simp_all
  then show "2 powi \<lfloor>log 2 a\<rfloor> \<le> a" and "a < 2 powi (\<lfloor>log 2 a\<rfloor> + 1)" by simp_all
qed

lemma two_powi_less_imp:
  assumes "(2::real) powi m < 2 powi n"
  shows "m < n"
proof (rule ccontr)
  assume "\<not> m < n"
  then have "(2::real) powi n \<le> 2 powi m" by (intro power_int_increasing) simp_all
  with assms show False by simp
qed

lemma quantum_exp_lower: "- 1074 \<le> quantum_exp x"
  by (simp add: quantum_exp_def)



lemma quantum_exp_le:
  assumes "x \<noteq> 0" and "\<bar>x\<bar> < 2 powi (k + 53)" and "- 1074 \<le> k"
  shows "quantum_exp x \<le> k"
proof -
  from assms(1) have "2 powi \<lfloor>log 2 \<bar>x\<bar>\<rfloor> \<le> \<bar>x\<bar>" by (intro floor_log2_bounds) simp
  with assms(2) have "(2::real) powi \<lfloor>log 2 \<bar>x\<bar>\<rfloor> < 2 powi (k + 53)" by simp
  then have "\<lfloor>log 2 \<bar>x\<bar>\<rfloor> < k + 53"
    by (rule two_powi_less_imp)
  with assms(3) show ?thesis by (simp add: quantum_exp_def)
qed











































lemma quantum_exp_subnormal:
  assumes "x \<noteq> 0" and "\<bar>x\<bar> < 2 powi (- 1021)"
  shows "quantum_exp x = - 1074"
proof -
  from assms have "quantum_exp x \<le> - 1074" by (intro quantum_exp_le) simp_all
  with quantum_exp_lower [of x] show ?thesis by simp
qed

text \<open>
  Where the sum of the intensities is so small that its reciprocal overflows, the
  cumulative weights are not ordered: for the intensities \<open>(2 powi (- 1074), 0)\<close> the
  doubles of the constructor are (inf, NaN).
\<close>

lemma example_subnormal:
  "normalise_spectrum_fl (finite_table [(1, 2 powi (- 1074)), (2, 0)]) = [(1, PInf), (2, NaN)]"
proof -
  define x :: real where "x = 2 powi (- 1074)"
  have pos: "0 < x" by (simp add: x_def)
  have "x \<le> 2 powi 0" unfolding x_def by (intro power_int_increasing) simp_all
  then have le1: "x \<le> 1" by simp
  have "x < 2 powi (- 1021)" unfolding x_def by (intro power_int_strict_increasing) simp_all
  with pos have q: "quantum_exp x = - 1074" by (intro quantum_exp_subnormal) simp_all
  have one: "round_even 1 = 1" using round_even_eq [of 1 1] by simp
  from pos le1 have "\<bar>x\<bar> \<le> 2 ^ 64" by simp
  then have "\<not> overflow_threshold \<le> \<bar>x\<bar>" by (simp add: not_le small_no_overflow)
  with pos have least: "round64 x = Finite x"
    unfolding round64_def Let_def q by (simp add: x_def one)
  have inv: "1 / x = 2 powi 1074" unfolding x_def by (simp add: power_int_minus)
  have q': "quantum_exp (2 powi 1074) = 1022"
  proof (rule quantum_exp_eq)
    show "2 powi (1022 + 52) \<le> \<bar>2 powi 1074 :: real\<bar>" by simp
    have "(2::real) powi 1074 < 2 powi 1075" by (intro power_int_strict_increasing) simp_all
    then show "\<bar>2 powi 1074 :: real\<bar> < 2 powi (1022 + 53)" by simp
  qed simp
  have "(2::real) powi 1074 = 2 powi 52 * 2 powi 1022"
    using power_int_add [of "2::real" 52 1022] by simp
  then have d: "(2::real) powi 1074 / 2 powi 1022 = of_int (2 ^ 52)" by simp
  have "round_even (of_int (2 ^ 52)) = 2 ^ 52" by (rule round_even_eq) simp
  then have r: "of_int (round_even (2 powi 1074 / 2 powi 1022)) * 2 powi 1022 = (2::real) powi 1074"
    unfolding d using power_int_add [of "2::real" 52 1022] by simp
  have "(2::real) powi 1024 \<le> 2 powi 1074" by (intro power_int_increasing) simp_all
  then have "overflow_threshold \<le> \<bar>2 powi 1074 :: real\<bar>"
    by (simp add: overflow_threshold_def)
  then have over: "round64 (1 / x) = PInf"
    unfolding inv round64_def Let_def q' r by simp
  have z: "round64 0 = Finite 0" by (simp add: round64_def)
  from pos have "normalise_spectrum_fl (finite_table [(1, x), (2, 0)]) = [(1, PInf), (2, NaN)]"
    by (simp add: normalise_spectrum_fl_def sum_intensities_fl_def finite_table_def
        fadd_def fmul_def fdiv_def Let_def least over signed_inf_def z)
  then show ?thesis unfolding x_def .
qed








end
